theory Spec2Isabelle
  imports Main "HOL-Library.Sublist"
begin

section \<open>JavaScript values as the accessory sees them\<close>

text \<open>
  The accessory reads its configuration with \<^verbatim>\<open>config["key"]\<close> at type \<^verbatim>\<open>any\<close>, and the
  transport hands over an error payload of type \<^verbatim>\<open>any\<close>. These values are modelled by
  \<open>jsval\<close>. A number is integer valued (below \<open>10^21\<close> in magnitude, where JavaScript prints
  plain decimal digits). \<open>JError m\<close> is an instance of \<^verbatim>\<open>Error\<close> with message \<open>m\<close>. Every
  other object (a plain object, an array, a buffer) is \<open>JObj t ps\<close>: the text \<open>t\<close> that its
  \<^verbatim>\<open>toString\<close> method yields and the table \<open>ps\<close> of its own enumerable properties, each
  name once; the order of the table carries no meaning.

  Text is a \<open>string\<close> whose characters are the code units \<open>U+0000\<close> to \<open>U+00FF\<close>.
\<close>

datatype jsval =
    JUndefined
  | JNull
  | JBool bool
  | JNum int
  | JStr string
  | JError string
  | JObj string "(string \<times> jsval) list"

type_synonym jsobj = "(string \<times> jsval) list"

text \<open>\<^verbatim>\<open>obj[key]\<close>: the value of the property, \<^verbatim>\<open>undefined\<close> when the object has none.\<close>

definition js_get :: "jsobj \<Rightarrow> string \<Rightarrow> jsval" where
  "js_get obj key = (case map_of obj key of None \<Rightarrow> JUndefined | Some v \<Rightarrow> v)"

text \<open>\<^verbatim>\<open>obj[key] = v\<close>: the property is overwritten, or added when the object has none.\<close>

fun js_put :: "jsobj \<Rightarrow> string \<Rightarrow> jsval \<Rightarrow> jsobj" where
  "js_put [] key v = [(key, v)]"
| "js_put ((k, w) # ps) key v = (if k = key then (k, v) # ps else (k, w) # js_put ps key v)"

text \<open>ToBoolean: \<^verbatim>\<open>undefined\<close>, \<^verbatim>\<open>null\<close>, \<^verbatim>\<open>false\<close>, zero and the empty string are falsy.\<close>

fun js_truthy :: "jsval \<Rightarrow> bool" where
  "js_truthy JUndefined = False"
| "js_truthy JNull = False"
| "js_truthy (JBool b) = b"
| "js_truthy (JNum n) = (n \<noteq> 0)"
| "js_truthy (JStr s) = (s \<noteq> [])"
| "js_truthy (JError m) = True"
| "js_truthy (JObj t ps) = True"

text \<open>\<^verbatim>\<open>a || b\<close> yields \<open>a\<close> itself when it is truthy, otherwise \<open>b\<close>.\<close>

definition js_or :: "jsval \<Rightarrow> jsval \<Rightarrow> jsval" where
  "js_or a b = (if js_truthy a then a else b)"

subsection \<open>Conversion to text\<close>

definition digit_char :: "nat \<Rightarrow> char" where
  "digit_char d = char_of (48 + d)"

fun decimal :: "nat \<Rightarrow> string" where
  "decimal n = (if n < 10 then [digit_char n] else decimal (n div 10) @ [digit_char (n mod 10)])"

declare decimal.simps [simp del]

text \<open>
  ToString, as string concatenation with \<^verbatim>\<open>+\<close> applies it to an operand that is not a
  string. \<^verbatim>\<open>Error.prototype.toString\<close> prints the name alone when the message is empty.
\<close>

fun js_ToString :: "jsval \<Rightarrow> string" where
  "js_ToString JUndefined = ''undefined''"
| "js_ToString JNull = ''null''"
| "js_ToString (JBool b) = (if b then ''true'' else ''false'')"
| "js_ToString (JNum n) = (if n < 0 then ''-'' @ decimal (nat (- n)) else decimal (nat n))"
| "js_ToString (JStr s) = s"
| "js_ToString (JError m) = (if m = [] then ''Error'' else ''Error: '' @ m)"
| "js_ToString (JObj t ps) = t"

subsection \<open>The string methods the accessory calls\<close>

text \<open>
  \<^verbatim>\<open>String.prototype.trim\<close> removes white space and line terminators from both ends. Among
  the code units up to \<open>U+00FF\<close> these are TAB, LF, VT, FF, CR, SPACE and NBSP.
\<close>

definition js_white :: "char \<Rightarrow> bool" where
  "js_white c = ((of_char c :: nat) \<in> {9, 10, 11, 12, 13, 32, 160})"

definition js_trim :: "string \<Rightarrow> string" where
  "js_trim s = rev (dropWhile js_white (rev (dropWhile js_white s)))"

text \<open>
  \<^verbatim>\<open>String.prototype.toLowerCase\<close>: up to \<open>U+00FF\<close> the letters with a lower-case mapping are
  \<open>A\<close> to \<open>Z\<close> and \<open>U+00C0\<close> to \<open>U+00DE\<close> without the multiplication sign \<open>U+00D7\<close>; each maps
  to the code unit 32 above it.
\<close>

definition lower_char :: "char \<Rightarrow> char" where
  "lower_char c =
     (let n = (of_char c :: nat)
      in if (65 \<le> n \<and> n \<le> 90) \<or> (192 \<le> n \<and> n \<le> 222 \<and> n \<noteq> 215) then char_of (n + 32) else c)"

definition js_toLowerCase :: "string \<Rightarrow> string" where
  "js_toLowerCase s = map lower_char s"

text \<open>
  \<^verbatim>\<open>s.indexOf(p)\<close>: the least position at which \<open>p\<close> occurs in \<open>s\<close>, and \<open>-1\<close> when it occurs
  nowhere. \<open>indexOf_from s p i\<close> searches the rest \<open>s\<close> of the text that starts at position \<open>i\<close>.
\<close>

fun indexOf_from :: "string \<Rightarrow> string \<Rightarrow> nat \<Rightarrow> int" where
  "indexOf_from [] p i = (if p = [] then int i else - 1)"
| "indexOf_from (c # s) p i = (if prefix p (c # s) then int i else indexOf_from s p (Suc i))"

definition js_indexOf :: "string \<Rightarrow> string \<Rightarrow> int" where
  "js_indexOf s p = indexOf_from s p 0"

text \<open>
  \<^verbatim>\<open>object-assign\<close> with one source: the own enumerable properties of the source are written
  onto the target. \<^verbatim>\<open>undefined\<close> and \<^verbatim>\<open>null\<close> contribute nothing, nor do booleans, numbers and
  \<^verbatim>\<open>Error\<close> instances, which have no enumerable property of their own; a string contributes
  its characters under their positions.
\<close>

fun string_props :: "nat \<Rightarrow> string \<Rightarrow> jsobj" where
  "string_props i [] = []"
| "string_props i (c # s) = (decimal i, JStr [c]) # string_props (Suc i) s"

fun own_props :: "jsval \<Rightarrow> jsobj" where
  "own_props (JObj t ps) = ps"
| "own_props (JStr s) = string_props 0 s"
| "own_props v = []"

definition assign :: "jsobj \<Rightarrow> jsval \<Rightarrow> jsobj" where
  "assign target source = fold (\<lambda>(k, v) obj. js_put obj k v) (own_props source) target"

section \<open>The accessory\<close>

datatype js_error = TypeError string

datatype event_type = GET | SET

text \<open>The two bound methods that \<^verbatim>\<open>getServices\<close> registers as listeners.\<close>

datatype listener = setState_bound | getState_bound

record service_obj =
  displayName :: jsval
  characteristics :: jsobj
  listeners :: "(event_type \<times> listener) list"

record accessory =
  powerOn :: bool
  name :: jsval
  service :: string
  onCommand :: jsval
  offCommand :: jsval
  stateCommand :: jsval
  onValue :: string
  exactMatch :: jsval
  ssh :: jsval
  switchService :: service_obj
  informationService :: service_obj

text \<open>
  The constructor. \<^verbatim>\<open>this.onValue.trim()\<close> is a call of \<^verbatim>\<open>undefined\<close> when the value is not
  a string, which raises a \<^verbatim>\<open>TypeError\<close> and abandons the construction.
\<close>

definition SshAccessory :: "jsobj \<Rightarrow> js_error + accessory" where
  "SshAccessory config =
     (case js_or (js_get config ''on_value'') (JStr ''playing'') of
        JStr v \<Rightarrow>
          Inr \<lparr> powerOn = False,
                name = js_get config ''name'',
                service = ''Switch'',
                onCommand = js_get config ''on'',
                offCommand = js_get config ''off'',
                stateCommand = js_get config ''state'',
                onValue = js_toLowerCase (js_trim v),
                exactMatch = js_or (js_get config ''exact_match'') (JBool True),
                ssh = JObj ''[object Object]''
                        (assign [(''user'', js_get config ''user''),
                                 (''host'', js_get config ''host''),
                                 (''password'', js_get config ''password''),
                                 (''key'', js_get config ''key'')]
                                (js_get config ''ssh'')),
                switchService =
                  \<lparr> displayName = js_get config ''name'', characteristics = [], listeners = [] \<rparr>,
                informationService =
                  \<lparr> displayName = JUndefined, characteristics = [], listeners = [] \<rparr> \<rparr>
      | _ \<Rightarrow> Inl (TypeError ''this.onValue.trim is not a function''))"

definition matchesString :: "accessory \<Rightarrow> string \<Rightarrow> bool" where
  "matchesString this match =
     (if js_truthy (exactMatch this) then match = onValue this
      else js_indexOf match (onValue this) > - 1)"

text \<open>
  Property access by a computed name, \<^verbatim>\<open>accessory[prop]\<close>. The members that hold data are
  found under their names. The logger, the two services and the handlers are members
  too, but no values of \<open>jsval\<close>; the only names the accessory computes are \<open>onCommand\<close>
  and \<open>offCommand\<close>, in \<^verbatim>\<open>setState\<close>. A name that no member has yields \<^verbatim>\<open>undefined\<close>.
\<close>

definition get_prop :: "accessory \<Rightarrow> string \<Rightarrow> jsval" where
  "get_prop this prop =
     (if prop = ''powerOn'' then JBool (powerOn this)
      else if prop = ''name'' then name this
      else if prop = ''service'' then JStr (service this)
      else if prop = ''onCommand'' then onCommand this
      else if prop = ''offCommand'' then offCommand this
      else if prop = ''stateCommand'' then stateCommand this
      else if prop = ''onValue'' then JStr (onValue this)
      else if prop = ''exactMatch'' then exactMatch this
      else if prop = ''ssh'' then ssh this
      else JUndefined)"

subsection \<open>The transport and what a handler does\<close>

text \<open>
  \<^verbatim>\<open>ssh(command, options)\<close> returns a stream; the accessory attaches listeners to it. A
  call is modelled by the two arguments it passes, and the listeners by a function from
  the event the stream emits to the actions performed in answer, in order: lines written
  with \<^verbatim>\<open>accessory.log\<close> and calls of the hub's callback with their argument lists. An event
  without a listener causes no action. A chunk of data is represented by the text that its
  \<^verbatim>\<open>toString\<close> yields.
\<close>

record ssh_call =
  command :: jsval
  options :: jsval

datatype event = Error jsval | Data string | Finish | Close | End

datatype action = Log string | Callback "jsval list"

definition setState :: "accessory \<Rightarrow> jsval \<Rightarrow> ssh_call \<times> (event \<Rightarrow> action list)" where
  "setState accessory powerOn_arg =
     (let state = (if js_truthy powerOn_arg then ''on'' else ''off'');
          prop = state @ ''Command'';
          cmd = get_prop accessory prop
      in (\<lparr> command = cmd, options = ssh accessory \<rparr>,
          \<lambda>ev. case ev of
                 Error err \<Rightarrow>
                   [Log (''Error: '' @ js_ToString err),
                    Callback [js_or err
                      (JError (''Error setting '' @ js_ToString (name accessory) @ '' to '' @ state))]]
               | Finish \<Rightarrow>
                   [Log (''Set '' @ js_ToString (name accessory) @ '' to '' @ state),
                    Callback [JUndefined]]
               | _ \<Rightarrow> []))"

text \<open>
  \<^verbatim>\<open>getState\<close> of \<^verbatim>\<open>src/accessory.ts\<close>. Its data listener first evaluates
  \<^verbatim>\<open>data.toString().match(accessory.matchesString)\<close>: the method itself is passed where a
  pattern is expected, so the engine builds a regular expression from the text of the
  compiled method and searches the chunk for it. Neither that text nor the engine is part
  of the sources: the search is a parameter of the model, and \<open>str_match t\<close> says whether it
  finds a match in the text \<open>t\<close>.
\<close>

definition getState :: "(string \<Rightarrow> bool) \<Rightarrow> accessory \<Rightarrow> ssh_call \<times> (event \<Rightarrow> action list)" where
  "getState str_match accessory =
     (\<lparr> command = stateCommand accessory, options = ssh accessory \<rparr>,
      \<lambda>ev. case ev of
             Error err \<Rightarrow>
               [Log (''Error: '' @ js_ToString err),
                Callback [js_or err
                  (JError (''Error getting '' @ js_ToString (name accessory) @ '' state''))]]
           | Data data \<Rightarrow>
               (let match = str_match data;
                    state = js_toLowerCase (js_trim data)
                in if match then
                     [Log (''State of '' @ js_ToString (name accessory) @ '' is '' @ onValue accessory),
                      Callback [JUndefined, JBool (powerOn accessory)]]
                   else
                     [Log (''State of '' @ js_ToString (name accessory) @ '' is '' @ state),
                      Callback [JUndefined, JBool (matchesString accessory state)]])
           | Finish \<Rightarrow> [Log (''Finished getting '' @ js_ToString (name accessory) @ '' state'')]
           | Close \<Rightarrow> [Log (''Closed '' @ js_ToString (name accessory) @ '' state'')]
           | End \<Rightarrow> [Log (''Ended '' @ js_ToString (name accessory) @ '' state'')])"

text \<open>\<^verbatim>\<open>getState\<close> of the second source file, which has listeners for errors and data only.\<close>

definition getState_part_000 :: "accessory \<Rightarrow> ssh_call \<times> (event \<Rightarrow> action list)" where
  "getState_part_000 accessory =
     (let cmd = get_prop accessory ''stateCommand''
      in (\<lparr> command = cmd, options = ssh accessory \<rparr>,
          \<lambda>ev. case ev of
                 Error err \<Rightarrow>
                   [Log (''Error: '' @ js_ToString err),
                    Callback [js_or err
                      (JError (''Error getting state of '' @ js_ToString (name accessory)))]]
               | Data data \<Rightarrow>
                   (let state = js_toLowerCase (js_trim data)
                    in [Log (''State of '' @ js_ToString (name accessory) @ '' is: '' @ state),
                        Callback [JUndefined, JBool (matchesString accessory state)]])
               | _ \<Rightarrow> []))"

definition identify :: "accessory \<Rightarrow> action list" where
  "identify this = [Log ''Identify!'']"

text \<open>
  \<^verbatim>\<open>getServices\<close> writes the three characteristics of the information service, attaches
  the listeners to the \<open>On\<close> characteristic of the switch service, and returns both
  services. The services are members of the instance, so the instance is returned updated.
\<close>

definition getServices :: "accessory \<Rightarrow> accessory \<times> service_obj list" where
  "getServices this =
     (let info0 = informationService this;
          info = info0 \<lparr> characteristics :=
                   js_put (js_put (js_put (characteristics info0)
                     ''Manufacturer'' (JStr ''SSH Manufacturer''))
                     ''Model'' (JStr ''SSH Model''))
                     ''SerialNumber'' (JStr ''SSH Serial Number'') \<rparr>;
          sw0 = switchService this;
          sw1 = sw0 \<lparr> listeners := listeners sw0 @ [(SET, setState_bound)] \<rparr>;
          sw = (if js_truthy (stateCommand this)
                then sw1 \<lparr> listeners := listeners sw1 @ [(GET, getState_bound)] \<rparr>
                else sw1);
          this' = this \<lparr> informationService := info, switchService := sw \<rparr>
      in (this', [informationService this', switchService this']))"

subsection \<open>Runs of an accessory\<close>

text \<open>
  What the hub and the transport can do with an accessory: set the switch and have the
  stream of that call emit events, the same for a query of the state, ask it to identify
  itself, ask for its services. \<open>step\<close> gives the instance afterwards and the actions
  performed.
\<close>

datatype operation =
    SetPower jsval "event list"
  | GetPower "event list"
  | Identify
  | GetServices

fun step :: "(string \<Rightarrow> bool) \<Rightarrow> accessory \<Rightarrow> operation \<Rightarrow> accessory \<times> action list" where
  "step str_match this (SetPower v evs) = (this, concat (map (snd (setState this v)) evs))"
| "step str_match this (GetPower evs) = (this, concat (map (snd (getState str_match this)) evs))"
| "step str_match this Identify = (this, identify this)"
| "step str_match this GetServices = (fst (getServices this), [])"

fun run :: "(string \<Rightarrow> bool) \<Rightarrow> accessory \<Rightarrow> operation list \<Rightarrow> accessory" where
  "run str_match this [] = this"
| "run str_match this (op # ops) = run str_match (fst (step str_match this op)) ops"

text \<open>The argument lists of the callback calls among the actions, in order.\<close>

definition callback_args :: "action list \<Rightarrow> jsval list list" where
  "callback_args acts =
     concat (map (\<lambda>a. case a of Callback args \<Rightarrow> [args] | Log l \<Rightarrow> []) acts)"

subsection \<open>Example configurations\<close>

text \<open>
  The configuration of the specification's end-to-end scenario; the same with
  \<open>exact_match\<close> true and blanks around the \<open>on_value\<close>; one without the optional keys;
  and one in which the optional texts are empty.
\<close>

definition lamp_config :: jsobj where
  "lamp_config =
     [(''name'', JStr ''Lamp''), (''on'', JStr ''relay on''), (''off'', JStr ''relay off''),
      (''state'', JStr ''relay status''), (''on_value'', JStr ''ON''),
      (''exact_match'', JBool False)]"

definition strict_config :: jsobj where
  "strict_config =
     [(''name'', JStr ''Lamp''), (''on'', JStr ''relay on''), (''off'', JStr ''relay off''),
      (''state'', JStr ''relay status''), (''on_value'', JStr ''  ON  ''),
      (''exact_match'', JBool True)]"

definition bare_config :: jsobj where
  "bare_config =
     [(''name'', JStr ''Lamp''), (''on'', JStr ''relay on''), (''off'', JStr ''relay off'')]"

definition empty_config :: jsobj where
  "empty_config =
     [(''name'', JStr ''Lamp''), (''on'', JStr ''relay on''), (''off'', JStr ''relay off''),
      (''state'', JStr []), (''on_value'', JStr [])]"

text \<open>The instance that the constructor builds from \<open>lamp_config\<close>, and from \<open>strict_config\<close>.\<close>

definition lamp :: accessory where
  "lamp =
     \<lparr> powerOn = False, name = JStr ''Lamp'', service = ''Switch'',
       onCommand = JStr ''relay on'', offCommand = JStr ''relay off'',
       stateCommand = JStr ''relay status'', onValue = ''on'', exactMatch = JBool True,
       ssh = JObj ''[object Object]''
               [(''user'', JUndefined), (''host'', JUndefined), (''password'', JUndefined),
                (''key'', JUndefined)],
       switchService = \<lparr> displayName = JStr ''Lamp'', characteristics = [], listeners = [] \<rparr>,
       informationService =
         \<lparr> displayName = JUndefined, characteristics = [], listeners = [] \<rparr> \<rparr>"

section \<open>Basic facts\<close>

text \<open>\<^verbatim>\<open>indexOf\<close> finds a position exactly when the pattern occurs as a contiguous part.\<close>

lemma indexOf_from_sublist: "(- 1 < indexOf_from s p i) = sublist p s"
  by (induction s p i rule: indexOf_from.induct) (auto simp: sublist_Cons_right)

lemma js_indexOf_sublist: "(js_indexOf s p > - 1) = sublist p s"
  by (simp add: js_indexOf_def indexOf_from_sublist)

text \<open>A position that \<^verbatim>\<open>indexOf\<close> returns is one where the pattern starts, and the first such.\<close>

lemma indexOf_from_bounds: "indexOf_from s p i = - 1 \<or> int i \<le> indexOf_from s p i"
  by (induction s p i rule: indexOf_from.induct) auto

lemma indexOf_from_found:
  "indexOf_from s p i = int (i + k) \<Longrightarrow>
     prefix p (drop k s) \<and> (\<forall>j<k. \<not> prefix p (drop j s))"
proof (induction s p i arbitrary: k rule: indexOf_from.induct)
  case (1 p i)
  then show ?case by (simp split: if_splits)
next
  case (2 c s p i)
  show ?case
  proof (cases "prefix p (c # s)")
    case True
    with 2(2) show ?thesis by simp
  next
    case False
    with 2(2) have r: "indexOf_from s p (Suc i) = int (i + k)"
      by simp
    with indexOf_from_bounds [of s p "Suc i"] obtain k' where k: "k = Suc k'"
      by (cases k) auto
    with r have "indexOf_from s p (Suc i) = int (Suc i + k')"
      by simp
    with False have "prefix p (drop k' s) \<and> (\<forall>j<k'. \<not> prefix p (drop j s))"
      by (rule 2(1))
    with False k show ?thesis
      by (auto simp: less_Suc_eq_0_disj)
  qed
qed

lemma js_indexOf_least:
  "js_indexOf s p = int k \<Longrightarrow> prefix p (drop k s) \<and> (\<forall>j<k. \<not> prefix p (drop j s))"
  using indexOf_from_found [of s p 0 k] by (simp add: js_indexOf_def)

lemma js_indexOf_example:
  "js_indexOf ''status: on'' ''on'' = 8 \<and> js_indexOf ''status: off'' ''on'' = - 1 \<and>
   js_indexOf [] [] = 0"
  by code_simp

lemma js_truthy_or_True: "js_truthy (js_or v (JBool True))"
  by (simp add: js_or_def)

subsection \<open>Trimming and lower-casing\<close>

text \<open>
  Lower-casing keeps white space white and is idempotent; trimming leaves a text that
  neither starts nor ends with white space, is idempotent, removes any white space put
  around a text, and commutes with lower-casing.
\<close>

lemma js_white_lower_char: "js_white (lower_char c) = js_white c"
  by (simp add: js_white_def lower_char_def Let_def)

lemma lower_char_idem: "lower_char (lower_char c) = lower_char c"
  by (simp add: lower_char_def Let_def)

lemma js_toLowerCase_idem: "js_toLowerCase (js_toLowerCase s) = js_toLowerCase s"
  by (simp add: js_toLowerCase_def lower_char_idem)

lemma dropWhile_map_lower:
  "dropWhile js_white (map lower_char s) = map lower_char (dropWhile js_white s)"
  by (induction s) (simp_all add: js_white_lower_char)

lemma js_trim_lower: "js_trim (js_toLowerCase s) = js_toLowerCase (js_trim s)"
  by (simp add: js_trim_def js_toLowerCase_def dropWhile_map_lower rev_map)

lemma js_trim_ends:
  "js_trim s = [] \<or> (\<not> js_white (hd (js_trim s)) \<and> \<not> js_white (last (js_trim s)))"
  by (metis dropWhile_eq_self_iff hd_dropWhile js_trim_def last_appendR
    last_rev rev.simps(1) rev_rev_ident takeWhile_dropWhile_id)

lemma js_trim_fixed:
  assumes "s = [] \<or> (\<not> js_white (hd s) \<and> \<not> js_white (last s))"
  shows "js_trim s = s"
proof (cases "s = []")
  case True
  then show ?thesis by (simp add: js_trim_def)
next
  case False
  with assms have h: "\<not> js_white (hd s)" and l: "\<not> js_white (last s)"
    by simp_all
  from False h have "dropWhile js_white s = s"
    by (simp add: dropWhile_eq_self_iff)
  moreover from False l have "dropWhile js_white (rev s) = rev s"
    by (simp add: dropWhile_eq_self_iff hd_rev)
  ultimately show ?thesis
    by (simp add: js_trim_def)
qed

lemma js_trim_idem: "js_trim (js_trim s) = js_trim s"
  by (rule js_trim_fixed) (rule js_trim_ends)

lemma js_trim_surround:
  assumes a: "\<And>c. c \<in> set a \<Longrightarrow> js_white c" and b: "\<And>c. c \<in> set b \<Longrightarrow> js_white c"
  shows "js_trim (a @ s @ b) = js_trim s"
proof -
  have 1: "dropWhile js_white (a @ s @ b) = dropWhile js_white (s @ b)"
    using a by (rule dropWhile_append2)
  show ?thesis
  proof (cases "\<forall>c \<in> set s. js_white c")
    case True
    then have e: "dropWhile js_white s = []"
      by simp
    from True b have "\<forall>c \<in> set (s @ b). js_white c"
      by auto
    then have f: "dropWhile js_white (s @ b) = []"
      by (simp only: dropWhile_eq_Nil_conv)
    show ?thesis
      unfolding js_trim_def 1 e f by simp
  next
    case False
    then obtain c where "c \<in> set s" and "\<not> js_white c"
      by blast
    then have 2: "dropWhile js_white (s @ b) = dropWhile js_white s @ b"
      by (rule dropWhile_append1)
    have 3: "dropWhile js_white (rev b @ rev (dropWhile js_white s)) =
        dropWhile js_white (rev (dropWhile js_white s))"
      by (rule dropWhile_append2) (simp add: b)
    show ?thesis
      unfolding js_trim_def 1 2 rev_append 3 by (rule refl)
  qed
qed

lemma normalise_example:
  "js_toLowerCase (js_trim (CHR 0x09 # ''  Playing '' @ [CHR 0x0A, CHR 0xA0])) = ''playing''"
  by code_simp

lemma js_toLowerCase_example:
  "js_toLowerCase [CHR 0xC9, CHR 0xD7, CHR 0xDF, CHR ''Z'', CHR ''@'', CHR ''['']
     = [CHR 0xE9, CHR 0xD7, CHR 0xDF, CHR ''z'', CHR ''@'', CHR ''['']"
  by code_simp

subsection \<open>The constructor and the operations\<close>

text \<open>What a completed construction has stored.\<close>

lemma SshAccessory_Inr:
  assumes "SshAccessory config = Inr this"
  shows "js_or (js_get config ''on_value'') (JStr ''playing'') = JStr v \<Longrightarrow>
           onValue this = js_toLowerCase (js_trim v)"
    and "exactMatch this = js_or (js_get config ''exact_match'') (JBool True)"
    and "powerOn this = False"
    and "name this = js_get config ''name''"
    and "onCommand this = js_get config ''on''"
    and "offCommand this = js_get config ''off''"
    and "stateCommand this = js_get config ''state''"
    and "listeners (switchService this) = []"
    and "listeners (informationService this) = []"
  using assms by (auto simp: SshAccessory_def split: jsval.splits)

text \<open>No operation writes a data member: only the two services change.\<close>

lemma step_data:
  "powerOn (fst (step m this op)) = powerOn this"
  "exactMatch (fst (step m this op)) = exactMatch this"
  "onValue (fst (step m this op)) = onValue this"
  "name (fst (step m this op)) = name this"
  "onCommand (fst (step m this op)) = onCommand this"
  "offCommand (fst (step m this op)) = offCommand this"
  "stateCommand (fst (step m this op)) = stateCommand this"
  "ssh (fst (step m this op)) = ssh this"
  by (cases op; simp add: getServices_def Let_def)+

lemma run_data:
  "powerOn (run m this ops) = powerOn this"
  "exactMatch (run m this ops) = exactMatch this"
  "onValue (run m this ops) = onValue this"
  "name (run m this ops) = name this"
  "onCommand (run m this ops) = onCommand this"
  "offCommand (run m this ops) = offCommand this"
  "stateCommand (run m this ops) = stateCommand this"
  "ssh (run m this ops) = ssh this"
  by (induction ops arbitrary: this; simp add: step_data)+

text \<open>The example configurations construct, and what they construct.\<close>

lemma SshAccessory_lamp: "SshAccessory lamp_config = Inr lamp"
  by code_simp

lemma SshAccessory_strict: "SshAccessory strict_config = Inr lamp"
  by code_simp

lemma SshAccessory_bare:
  "SshAccessory bare_config = Inr (lamp \<lparr> stateCommand := JUndefined, onValue := ''playing'' \<rparr>)"
  by code_simp

lemma SshAccessory_empty:
  "SshAccessory empty_config = Inr (lamp \<lparr> stateCommand := JStr [], onValue := ''playing'' \<rparr>)"
  by code_simp

text \<open>A configuration whose \<open>on_value\<close> is truthy but no string does not construct.\<close>

lemma SshAccessory_TypeError:
  "SshAccessory [(''name'', JStr ''Lamp''), (''on_value'', JNum 5)] =
     Inl (TypeError ''this.onValue.trim is not a function'')"
  by code_simp

subsection \<open>The handlers, event by event\<close>

lemma command_of_setState:
  "command (fst (setState this v)) = (if js_truthy v then onCommand this else offCommand this)"
  by (simp add: setState_def Let_def get_prop_def)

lemma setState_Finish:
  "callback_args (snd (setState this v) Finish) = [[JUndefined]]"
  by (simp add: setState_def Let_def callback_args_def)

lemma setState_Error:
  "callback_args (snd (setState this v) (Error err)) =
     [[js_or err (JError (''Error setting '' @ js_ToString (name this) @ '' to '' @
                          (if js_truthy v then ''on'' else ''off'')))]]"
  by (simp add: setState_def Let_def callback_args_def)

lemma getState_Error:
  "callback_args (snd (getState m this) (Error err)) =
     [[js_or err (JError (''Error getting '' @ js_ToString (name this) @ '' state''))]]"
  by (simp add: getState_def callback_args_def)

lemma getState_Data:
  "callback_args (snd (getState m this) (Data t)) =
     [[JUndefined, JBool (if m t then powerOn this
                          else matchesString this (js_toLowerCase (js_trim t)))]]"
  by (simp add: getState_def Let_def callback_args_def)

text \<open>
  The data listener of the second source file has no branch on a pattern search: every
  chunk is answered with the predicate applied to the trimmed, lower-cased text.
\<close>

lemma getState_part_000_Data:
  "callback_args (snd (getState_part_000 this) (Data t)) =
     [[JUndefined, JBool (matchesString this (js_toLowerCase (js_trim t)))]]"
  by (simp add: getState_part_000_def Let_def callback_args_def)

lemma getState_part_000_Error:
  "callback_args (snd (getState_part_000 this) (Error err)) =
     [[js_or err (JError (''Error getting state of '' @ js_ToString (name this)))]]"
  by (simp add: getState_part_000_def Let_def callback_args_def)

text \<open>
  The specification's scenario: the configuration asks for containment, the status
  command prints \<open>Status: ON\<close> and a line feed, the pattern search finds nothing. The
  callback receives \<^verbatim>\<open>false\<close>, since the instance compares for equality.
\<close>

lemma scenario_status_on:
  assumes "\<not> m (''Status: ON'' @ [CHR 0x0A])"
  shows "callback_args (snd (getState m lamp) (Data (''Status: ON'' @ [CHR 0x0A]))) =
           [[JUndefined, JBool False]]"
proof -
  have "js_toLowerCase (js_trim (''Status: ON'' @ [CHR 0x0A])) = ''status: on''"
    by code_simp
  then show ?thesis
    using assms by (simp add: getState_Data matchesString_def lamp_def)
qed

lemma listeners_after_getServices:
  "listeners (switchService this) = [] \<Longrightarrow>
     listeners (switchService (fst (getServices this))) =
       (if js_truthy (stateCommand this) then [(SET, setState_bound), (GET, getState_bound)]
        else [(SET, setState_bound)])"
  by (simp add: getServices_def Let_def)

lemma getServices_result:
  "map listeners (snd (getServices this)) =
     [listeners (informationService this), listeners (switchService (fst (getServices this)))]"
  by (simp add: getServices_def Let_def)

section \<open>The stored exactMatch member\<close>

text \<open>
  Claim C8. Whatever the configuration supplies for \<open>exact_match\<close>, the boolean
  \<^verbatim>\<open>false\<close> and every other falsy value included, a completed construction has stored a
  truthy \<open>exactMatch\<close>, and it stays so in every state the instance reaches.
  \<open>matchesString\<close> therefore always compares for equality with \<open>onValue\<close>; its branch for
  containment is never taken.
\<close>

theorem exactMatch_always_truthy:
  assumes "SshAccessory config = Inr this"
  shows "js_truthy (exactMatch (run m this ops)) \<and>
         (\<forall>s. matchesString (run m this ops) s = (s = onValue (run m this ops)))"
  using assms by (simp add: run_data SshAccessory_Inr(2) js_truthy_or_True matchesString_def)

text \<open>
  At the scenario's configuration, which supplies \<open>exact_match\<close> as \<^verbatim>\<open>false\<close>: the stored
  member is truthy and a text that merely contains \<open>on\<close> is rejected.
\<close>

theorem exactMatch_always_truthy_witness:
  "SshAccessory lamp_config = Inr lamp \<and> js_get lamp_config ''exact_match'' = JBool False \<and>
   js_truthy (exactMatch (run (\<lambda>t. False) lamp [GetServices])) \<and>
   \<not> matchesString (run (\<lambda>t. False) lamp [GetServices]) ''status: on''"
proof -
  have "js_get lamp_config ''exact_match'' = JBool False"
    by (simp add: js_get_def lamp_config_def)
  moreover have "onValue (run (\<lambda>t. False) lamp [GetServices]) = onValue lamp"
    by (rule run_data)
  moreover have "onValue lamp = ''on''"
    by (simp add: lamp_def)
  ultimately show ?thesis
    using exactMatch_always_truthy [OF SshAccessory_lamp, of "\<lambda>t. False" "[GetServices]"]
      SshAccessory_lamp
    by simp
qed

section \<open>The match predicate\<close>

text \<open>
  The branch of \<open>matchesString\<close> for a falsy \<open>exactMatch\<close> tests containment of the stored
  \<open>onValue\<close> in the candidate as passed. No instance that the constructor builds has a
  falsy \<open>exactMatch\<close>, so this branch is written and never taken.
\<close>

lemma matchesString_else_branch:
  "\<not> js_truthy (exactMatch this) \<Longrightarrow> matchesString this s \<longleftrightarrow> sublist (onValue this) s"
  by (simp add: matchesString_def js_indexOf_sublist)

text \<open>
  Claim C1 asks that under a configuration which supplies \<open>exact_match\<close> as \<^verbatim>\<open>false\<close>,
  \<open>matchesString\<close> accepts a candidate exactly when the stored \<open>onValue\<close> is contained in
  its trimmed, lower-cased text. The scenario's configuration supplies \<^verbatim>\<open>false\<close>, the
  constructor stores \<^verbatim>\<open>true\<close> in its place, and the candidate \<open>status: on\<close>, which is
  its own trimmed, lower-cased text and contains the stored \<open>on\<close>, is rejected.
\<close>

theorem matchesString_exact_match_false:
  "SshAccessory lamp_config = Inr lamp \<and> js_get lamp_config ''exact_match'' = JBool False \<and>
   exactMatch lamp = JBool True \<and>
   js_toLowerCase (js_trim ''status: on'') = ''status: on'' \<and>
   sublist (onValue lamp) (js_toLowerCase (js_trim ''status: on'')) \<and>
   \<not> matchesString lamp ''status: on''"
proof -
  have n: "js_toLowerCase (js_trim ''status: on'') = ''status: on''"
    by code_simp
  have "sublist ''on'' (''status: '' @ ''on'' @ [])"
    by (rule sublist_appendI)
  moreover have "js_get lamp_config ''exact_match'' = JBool False"
    by (simp add: js_get_def lamp_config_def)
  ultimately show ?thesis
    using n by (simp add: SshAccessory_lamp matchesString_def lamp_def)
qed

text \<open>
  Claim C7, amended. For a configuration in which \<open>exact_match\<close> is true or absent,
  \<open>matchesString s\<close> holds exactly when \<open>s\<close>, as passed, equals the stored \<open>onValue\<close>; on a
  text that the caller has trimmed and lower-cased this is the equality of the trimmed,
  lower-cased text with \<open>onValue\<close>.
\<close>

theorem matchesString_exact:
  assumes "SshAccessory config = Inr this"
    and "map_of config ''exact_match'' = None \<or> js_get config ''exact_match'' = JBool True"
  shows "(matchesString this s \<longleftrightarrow> s = onValue this) \<and>
         (matchesString this (js_toLowerCase (js_trim t)) \<longleftrightarrow>
            js_toLowerCase (js_trim t) = onValue this)"
  using assms(1) by (simp add: SshAccessory_Inr(2) js_truthy_or_True matchesString_def)

theorem matchesString_exact_witness:
  "SshAccessory strict_config = Inr lamp \<and>
   (map_of strict_config ''exact_match'' = None \<or>
    js_get strict_config ''exact_match'' = JBool True) \<and>
   matchesString lamp ''on'' \<and> \<not> matchesString lamp ''status: on'' \<and>
   matchesString lamp (js_toLowerCase (js_trim '' ON ''))"
proof -
  have e: "map_of strict_config ''exact_match'' = None \<or>
           js_get strict_config ''exact_match'' = JBool True"
    by (simp add: js_get_def strict_config_def)
  have n: "js_toLowerCase (js_trim '' ON '') = ''on''"
    by code_simp
  show ?thesis
    using matchesString_exact [OF SshAccessory_strict e, of "''on''" "'' ON ''"]
      matchesString_exact [OF SshAccessory_strict e, of "''status: on''" "'' ON ''"] e n
    by (simp add: SshAccessory_strict lamp_def)
qed

text \<open>
  As first stated the property fails where \<open>exact_match\<close> is true: the candidate \<open>ON\<close>
  between two spaces equals \<open>onValue\<close> once trimmed and lower-cased, and \<open>matchesString\<close>,
  which compares the candidate as it is, rejects it.
\<close>

theorem matchesString_exact_counterexample:
  "SshAccessory strict_config = Inr lamp \<and> js_get strict_config ''exact_match'' = JBool True \<and>
   \<not> (matchesString lamp '' ON '' \<longleftrightarrow> js_toLowerCase (js_trim '' ON '') = onValue lamp)"
proof -
  have "js_toLowerCase (js_trim '' ON '') = ''on''"
    by code_simp
  moreover have "js_get strict_config ''exact_match'' = JBool True"
    by (simp add: js_get_def strict_config_def)
  ultimately show ?thesis
    by (simp add: SshAccessory_strict matchesString_def lamp_def)
qed

section \<open>The stored onValue and the registered listeners\<close>

text \<open>
  Claim C6, amended. When the configuration gives \<open>on_value\<close> as a string that is not
  empty, the construction completes and the stored \<open>onValue\<close> is that string trimmed and
  lower-cased; when the configuration has no \<open>on_value\<close>, the construction completes and
  the stored \<open>onValue\<close> is \<open>playing\<close>.
\<close>

theorem onValue_normalised:
  "(js_get config ''on_value'' = JStr v \<and> v \<noteq> [] \<longrightarrow>
      (\<exists>this. SshAccessory config = Inr this \<and> onValue this = js_toLowerCase (js_trim v))) \<and>
   (map_of config ''on_value'' = None \<longrightarrow>
      (\<exists>this. SshAccessory config = Inr this \<and> onValue this = ''playing''))"
proof -
  have "js_toLowerCase (js_trim ''playing'') = ''playing''"
    by code_simp
  then show ?thesis
    by (simp add: SshAccessory_def js_or_def js_get_def)
qed

text \<open>The specification's example, \<open>ON\<close> between blanks, and a configuration without the key.\<close>

theorem onValue_normalised_witness:
  "js_get strict_config ''on_value'' = JStr ''  ON  '' \<and> ''  ON  '' \<noteq> [] \<and>
   map_of bare_config ''on_value'' = None \<and>
   (\<exists>this. SshAccessory strict_config = Inr this \<and> onValue this = ''on'') \<and>
   (\<exists>this. SshAccessory bare_config = Inr this \<and> onValue this = ''playing'')"
proof -
  have n: "js_toLowerCase (js_trim ''  ON  '') = ''on''"
    by code_simp
  have a: "js_get strict_config ''on_value'' = JStr ''  ON  '' \<and> ''  ON  '' \<noteq> []"
    by (simp add: js_get_def strict_config_def)
  have b: "map_of bare_config ''on_value'' = None"
    by (simp add: bare_config_def)
  show ?thesis
    using onValue_normalised [of strict_config "''  ON  ''"] onValue_normalised [of bare_config "[]"]
      a b n
    by simp
qed

text \<open>
  As first stated the property fails for the empty string: it is present in the
  configuration, trimmed and lower-cased it is still empty, and the stored value is
  \<open>playing\<close>.
\<close>

theorem onValue_normalised_counterexample:
  "map_of empty_config ''on_value'' = Some (JStr []) \<and>
   SshAccessory empty_config = Inr (lamp \<lparr> stateCommand := JStr [], onValue := ''playing'' \<rparr>) \<and>
   onValue (lamp \<lparr> stateCommand := JStr [], onValue := ''playing'' \<rparr>) \<noteq>
     js_toLowerCase (js_trim [])"
proof -
  have "map_of empty_config ''on_value'' = Some (JStr [])"
    by (simp add: empty_config_def)
  then show ?thesis
    by (simp add: SshAccessory_empty js_trim_def js_toLowerCase_def)
qed

text \<open>
  Claim C10. An empty string counts like a missing key: with \<open>on_value\<close> empty the
  construction completes and stores \<open>playing\<close>; with \<open>state\<close> empty, \<^verbatim>\<open>getServices\<close> on the
  new instance leaves the switch with the listener for SET alone, also in the services it
  returns.
\<close>

theorem empty_string_as_absent:
  "(js_get config ''on_value'' = JStr [] \<longrightarrow>
      (\<exists>this. SshAccessory config = Inr this \<and> onValue this = ''playing'')) \<and>
   (\<forall>this. SshAccessory config = Inr this \<and> js_get config ''state'' = JStr [] \<longrightarrow>
      listeners (switchService (fst (getServices this))) = [(SET, setState_bound)] \<and>
      map listeners (snd (getServices this)) = [[], [(SET, setState_bound)]])"
proof -
  have p: "js_toLowerCase (js_trim ''playing'') = ''playing''"
    by code_simp
  have "\<exists>this. SshAccessory config = Inr this \<and> onValue this = ''playing''"
    if "js_get config ''on_value'' = JStr []"
    using that p by (simp add: SshAccessory_def js_or_def)
  moreover have "listeners (switchService (fst (getServices this))) = [(SET, setState_bound)] \<and>
      map listeners (snd (getServices this)) = [[], [(SET, setState_bound)]]"
    if c: "SshAccessory config = Inr this" and e: "js_get config ''state'' = JStr []" for this
  proof -
    have "listeners (switchService this) = []" and "listeners (informationService this) = []"
      and "stateCommand this = JStr []"
      using SshAccessory_Inr(7-9) [OF c] e by simp_all
    then show ?thesis
      by (simp add: listeners_after_getServices getServices_result)
  qed
  ultimately show ?thesis
    by blast
qed

theorem empty_string_as_absent_witness:
  "js_get empty_config ''on_value'' = JStr [] \<and> js_get empty_config ''state'' = JStr [] \<and>
   SshAccessory empty_config = Inr (lamp \<lparr> stateCommand := JStr [], onValue := ''playing'' \<rparr>) \<and>
   map listeners (snd (getServices (lamp \<lparr> stateCommand := JStr [], onValue := ''playing'' \<rparr>))) =
     [[], [(SET, setState_bound)]]"
proof -
  have a: "js_get empty_config ''on_value'' = JStr []"
    and b: "js_get empty_config ''state'' = JStr []"
    by (simp_all add: js_get_def empty_config_def)
  show ?thesis
    using empty_string_as_absent [of empty_config] a b SshAccessory_empty
    by simp
qed

text \<open>
  Claim C5, amended. When the configuration has no \<open>state\<close>, \<^verbatim>\<open>getServices\<close> on the new
  instance attaches the listener for SET and nothing else; the listener for GET is
  attached exactly when the configured \<open>state\<close> is truthy, that is present and neither the
  empty string nor \<^verbatim>\<open>null\<close>, \<^verbatim>\<open>false\<close> or zero.
\<close>

theorem getServices_listeners:
  assumes "SshAccessory config = Inr this"
  shows "(map_of config ''state'' = None \<longrightarrow>
            map listeners (snd (getServices this)) = [[], [(SET, setState_bound)]]) \<and>
         ((GET, getState_bound) \<in> set (listeners (switchService (fst (getServices this)))) \<longleftrightarrow>
            js_truthy (js_get config ''state''))"
proof -
  have "listeners (switchService this) = []" and "listeners (informationService this) = []"
    and "stateCommand this = js_get config ''state''"
    using SshAccessory_Inr(7-9) [OF assms] by simp_all
  then show ?thesis
    by (simp add: listeners_after_getServices getServices_result js_get_def)
qed

theorem getServices_listeners_witness:
  "SshAccessory bare_config = Inr (lamp \<lparr> stateCommand := JUndefined, onValue := ''playing'' \<rparr>) \<and>
   map_of bare_config ''state'' = None \<and>
   map listeners (snd (getServices (lamp \<lparr> stateCommand := JUndefined, onValue := ''playing'' \<rparr>))) =
     [[], [(SET, setState_bound)]] \<and>
   SshAccessory lamp_config = Inr lamp \<and> js_truthy (js_get lamp_config ''state'') \<and>
   (GET, getState_bound) \<in> set (listeners (switchService (fst (getServices lamp))))"
proof -
  have a: "map_of bare_config ''state'' = None"
    by (simp add: bare_config_def)
  have b: "js_truthy (js_get lamp_config ''state'')"
    by (simp add: js_get_def lamp_config_def)
  show ?thesis
    using getServices_listeners [OF SshAccessory_bare] getServices_listeners [OF SshAccessory_lamp]
      a b SshAccessory_bare SshAccessory_lamp
    by simp
qed

text \<open>
  As first stated the property fails for a \<open>state\<close> that is present and empty: no
  listener for GET is attached.
\<close>

theorem getServices_listeners_counterexample:
  "map_of empty_config ''state'' = Some (JStr []) \<and>
   SshAccessory empty_config = Inr (lamp \<lparr> stateCommand := JStr [], onValue := ''playing'' \<rparr>) \<and>
   (GET, getState_bound) \<notin>
     set (listeners (switchService
       (fst (getServices (lamp \<lparr> stateCommand := JStr [], onValue := ''playing'' \<rparr>)))))"
proof -
  have "map_of empty_config ''state'' = Some (JStr [])"
    by (simp add: empty_config_def)
  then show ?thesis
    by (simp add: SshAccessory_empty listeners_after_getServices lamp_def)
qed

section \<open>Setting the switch\<close>

text \<open>
  Claim C3. In every state the instance reaches, \<^verbatim>\<open>setState\<close> with \<^verbatim>\<open>true\<close> calls the
  transport with the configured \<open>on\<close> command and with \<^verbatim>\<open>false\<close> with the configured
  \<open>off\<close> command; whatever value it is called with, the command it sends is one of these
  two; and when the stream emits \<open>finish\<close> the callback is called once, with \<^verbatim>\<open>undefined\<close>
  for the error.
\<close>

theorem setState_command:
  assumes "SshAccessory config = Inr this"
  shows "command (fst (setState (run m this ops) (JBool True))) = js_get config ''on'' \<and>
         command (fst (setState (run m this ops) (JBool False))) = js_get config ''off'' \<and>
         (\<forall>v. command (fst (setState (run m this ops) v)) \<in>
                {js_get config ''on'', js_get config ''off''}) \<and>
         (\<forall>v. callback_args (snd (setState (run m this ops) v) Finish) = [[JUndefined]])"
  using assms by (simp add: command_of_setState setState_Finish run_data SshAccessory_Inr)

theorem setState_command_witness:
  "SshAccessory lamp_config = Inr lamp \<and>
   command (fst (setState (run (\<lambda>t. False) lamp [GetServices, SetPower (JBool False) [Finish]])
     (JBool True))) = JStr ''relay on'' \<and>
   command (fst (setState (run (\<lambda>t. False) lamp [GetServices, SetPower (JBool False) [Finish]])
     (JBool False))) = JStr ''relay off''"
proof -
  have "js_get lamp_config ''on'' = JStr ''relay on''"
    and "js_get lamp_config ''off'' = JStr ''relay off''"
    by (simp_all add: js_get_def lamp_config_def)
  then show ?thesis
    using setState_command [OF SshAccessory_lamp, of "\<lambda>t. False"
        "[GetServices, SetPower (JBool False) [Finish]]"] SshAccessory_lamp
    by simp
qed

section \<open>Errors of the transport\<close>

text \<open>
  Claim C4. On an error event, during \<^verbatim>\<open>setState\<close> and during \<^verbatim>\<open>getState\<close> alike, the
  callback is called once with one argument, and that argument is truthy, so an error is
  reported: it is the payload of the event when that is truthy, and otherwise a new
  \<^verbatim>\<open>Error\<close> whose message contains the text of the accessory's name and, for
  \<^verbatim>\<open>setState\<close>, the target state \<open>on\<close> or \<open>off\<close>. An error object of the transport, an
  \<^verbatim>\<open>Error\<close> instance or any other object, is thus passed on as it is; \<^verbatim>\<open>null\<close> and
  \<^verbatim>\<open>undefined\<close> are replaced by the new \<^verbatim>\<open>Error\<close>.
\<close>

theorem error_callbacks:
  "callback_args (snd (setState this v) (Error err)) =
     [[if js_truthy err then err
       else JError (''Error setting '' @ js_ToString (name this) @ '' to '' @
                    (if js_truthy v then ''on'' else ''off''))]] \<and>
   callback_args (snd (setState this v) (Error (JError e))) = [[JError e]] \<and>
   callback_args (snd (setState this v) (Error (JObj t ps))) = [[JObj t ps]] \<and>
   callback_args (snd (setState this v) (Error JNull)) =
     [[JError (''Error setting '' @ js_ToString (name this) @ '' to '' @
               (if js_truthy v then ''on'' else ''off''))]] \<and>
   callback_args (snd (setState this v) (Error JUndefined)) =
     [[JError (''Error setting '' @ js_ToString (name this) @ '' to '' @
               (if js_truthy v then ''on'' else ''off''))]] \<and>
   sublist (js_ToString (name this))
     (''Error setting '' @ js_ToString (name this) @ '' to '' @
      (if js_truthy v then ''on'' else ''off'')) \<and>
   sublist (if js_truthy v then ''on'' else ''off'')
     (''Error setting '' @ js_ToString (name this) @ '' to '' @
      (if js_truthy v then ''on'' else ''off'')) \<and>
   callback_args (snd (getState m this) (Error err)) =
     [[if js_truthy err then err
       else JError (''Error getting '' @ js_ToString (name this) @ '' state'')]] \<and>
   callback_args (snd (getState m this) (Error (JError e))) = [[JError e]] \<and>
   callback_args (snd (getState m this) (Error (JObj t ps))) = [[JObj t ps]] \<and>
   callback_args (snd (getState m this) (Error JNull)) =
     [[JError (''Error getting '' @ js_ToString (name this) @ '' state'')]] \<and>
   callback_args (snd (getState m this) (Error JUndefined)) =
     [[JError (''Error getting '' @ js_ToString (name this) @ '' state'')]] \<and>
   sublist (js_ToString (name this)) (''Error getting '' @ js_ToString (name this) @ '' state'') \<and>
   (\<forall>x. \<exists>y. callback_args (snd (setState this v) (Error x)) = [[y]] \<and> js_truthy y) \<and>
   (\<forall>x. \<exists>y. callback_args (snd (getState m this) (Error x)) = [[y]] \<and> js_truthy y)"
proof -
  have 1: "sublist (js_ToString (name this))
     (''Error setting '' @ js_ToString (name this) @ '' to '' @
      (if js_truthy v then ''on'' else ''off''))"
    by (rule sublist_appendI)
  have "sublist (if js_truthy v then ''on'' else ''off'')
     ((''Error setting '' @ js_ToString (name this) @ '' to '') @
      (if js_truthy v then ''on'' else ''off''))"
    by (rule sublist_append_leftI)
  then have 2: "sublist (if js_truthy v then ''on'' else ''off'')
     (''Error setting '' @ js_ToString (name this) @ '' to '' @
      (if js_truthy v then ''on'' else ''off''))"
    by simp
  have 3: "sublist (js_ToString (name this))
     (''Error getting '' @ js_ToString (name this) @ '' state'')"
    by (rule sublist_appendI)
  show ?thesis
    unfolding setState_Error getState_Error
    using 1 2 3 by (simp add: js_or_def)
qed

text \<open>
  For the scenario's instance, whose name is the string \<open>Lamp\<close>: an \<^verbatim>\<open>Error\<close> of the
  transport comes back as it is, and \<^verbatim>\<open>null\<close> becomes the messages below.
\<close>

lemma lamp_error_examples:
  "callback_args (snd (setState lamp (JBool True)) (Error (JError ''ECONNREFUSED''))) =
     [[JError ''ECONNREFUSED'']] \<and>
   callback_args (snd (setState lamp (JBool True)) (Error JNull)) =
     [[JError ''Error setting Lamp to on'']] \<and>
   callback_args (snd (setState lamp (JBool False)) (Error JNull)) =
     [[JError ''Error setting Lamp to off'']] \<and>
   callback_args (snd (getState m lamp) (Error JNull)) =
     [[JError ''Error getting Lamp state'']]"
  by (simp add: setState_Error getState_Error js_or_def lamp_def)

section \<open>Querying the state\<close>

text \<open>
  Claim C2 asks that every chunk of data is answered with the match predicate applied
  to the trimmed, lower-cased text of the chunk. The data listener of
  \<^verbatim>\<open>src/accessory.ts\<close> does so only when its pattern search on the chunk finds nothing.
  When the search finds a match, it answers with the stored \<open>powerOn\<close>: for a chunk that
  is the configured \<open>on_value\<close> itself the callback receives \<^verbatim>\<open>false\<close> although the
  predicate holds of the trimmed, lower-cased text.
\<close>

theorem getState_data_matched:
  assumes "SshAccessory config = Inr this"
    and "js_get config ''on_value'' = JStr t" and "t \<noteq> []"
    and "str_match t"
  shows "callback_args (snd (getState str_match this) (Data t)) = [[JUndefined, JBool False]] \<and>
         matchesString this (js_toLowerCase (js_trim t))"
proof -
  have "js_or (js_get config ''on_value'') (JStr ''playing'') = JStr t"
    using assms(2,3) by (simp add: js_or_def)
  then have "onValue this = js_toLowerCase (js_trim t)"
    by (rule SshAccessory_Inr(1) [OF assms(1)])
  moreover have "js_truthy (exactMatch this)"
    by (simp add: SshAccessory_Inr(2) [OF assms(1)] js_truthy_or_True)
  ultimately show ?thesis
    using assms(4) by (simp add: getState_Data SshAccessory_Inr(3) [OF assms(1)] matchesString_def)
qed

theorem getState_data_matched_witness:
  "SshAccessory lamp_config = Inr lamp \<and> js_get lamp_config ''on_value'' = JStr ''ON'' \<and>
   ''ON'' \<noteq> [] \<and> (\<lambda>t. t = ''ON'') ''ON'' \<and>
   callback_args (snd (getState (\<lambda>t. t = ''ON'') lamp) (Data ''ON'')) = [[JUndefined, JBool False]] \<and>
   matchesString lamp (js_toLowerCase (js_trim ''ON''))"
proof -
  have a: "js_get lamp_config ''on_value'' = JStr ''ON''"
    by (simp add: js_get_def lamp_config_def)
  have b: "''ON'' \<noteq> []" and c: "(\<lambda>t. t = ''ON'') ''ON''"
    by simp_all
  show ?thesis
    using getState_data_matched [OF SshAccessory_lamp a b, of "\<lambda>t. t = ''ON''", OF c]
      SshAccessory_lamp a
    by simp
qed

section \<open>The powerOn member\<close>

text \<open>
  Claim C9. \<open>powerOn\<close> is \<^verbatim>\<open>false\<close> after construction, no operation changes it in any
  instance, and so it is \<^verbatim>\<open>false\<close> in every state the instance reaches. Whenever the data
  listener of \<^verbatim>\<open>getState\<close> takes the branch that reports \<open>powerOn\<close>, the callback receives
  \<^verbatim>\<open>false\<close>, whatever the chunk says.
\<close>

theorem powerOn_never_written:
  assumes "SshAccessory config = Inr this"
  shows "powerOn this = False \<and>
         (\<forall>a op. powerOn (fst (step str_match a op)) = powerOn a) \<and>
         powerOn (run str_match this ops) = False \<and>
         (str_match t \<longrightarrow>
            callback_args (snd (getState str_match (run str_match this ops)) (Data t)) =
              [[JUndefined, JBool False]])"
  using assms by (simp add: SshAccessory_Inr(3) step_data run_data getState_Data)

theorem powerOn_never_written_witness:
  "SshAccessory lamp_config = Inr lamp \<and> (\<lambda>t. t = ''ON'') ''ON'' \<and>
   powerOn (run (\<lambda>t. t = ''ON'') lamp
     [GetServices, SetPower (JBool True) [Finish], GetPower [Data ''ON'', End], Identify]) = False \<and>
   callback_args (snd (getState (\<lambda>t. t = ''ON'') (run (\<lambda>t. t = ''ON'') lamp
     [GetServices, SetPower (JBool True) [Finish], GetPower [Data ''ON'', End], Identify]))
       (Data ''ON'')) = [[JUndefined, JBool False]]"
  using powerOn_never_written [OF SshAccessory_lamp, of "\<lambda>t. t = ''ON''"
      "[GetServices, SetPower (JBool True) [Finish], GetPower [Data ''ON'', End], Identify]" "''ON''"]
    SshAccessory_lamp
  by simp

end
